theory Spec2Isabelle
  imports Complex_Main "HOL-Library.Word" "HOL-Library.Sublist"
begin

section \<open>JavaScript strings\<close>

text \<open>
  A JavaScript string is a sequence of UTF-16 code units.  \<open>js\<close> embeds a literal of
  the source (all of them are ASCII) into that type.
\<close>

type_synonym jsstring = "16 word list"

definition js :: "string \<Rightarrow> jsstring" where
  "js s = map of_char s"

text \<open>
  \<^verbatim>\<open>String.prototype.trim\<close> removes the code units of WhiteSpace and LineTerminator
  (ECMA-262) from both ends: TAB, LF, VT, FF, CR, SP, NBSP, the Unicode space separators
  (category Zs), LS, PS and the byte order mark.
\<close>

definition isWhiteSpace :: "16 word \<Rightarrow> bool" where
  "isWhiteSpace c \<longleftrightarrow>
     c \<in> {0x0009, 0x000A, 0x000B, 0x000C, 0x000D, 0x0020, 0x00A0, 0x1680,
          0x2000, 0x2001, 0x2002, 0x2003, 0x2004, 0x2005, 0x2006, 0x2007,
          0x2008, 0x2009, 0x200A, 0x2028, 0x2029, 0x202F, 0x205F, 0x3000, 0xFEFF}"

definition trim :: "jsstring \<Rightarrow> jsstring" where
  "trim s = rev (dropWhile isWhiteSpace (rev (dropWhile isWhiteSpace s)))"

text \<open>Truthiness of a string value: only the empty string is falsy.\<close>

definition truthy :: "jsstring \<Rightarrow> bool" where
  "truthy s \<longleftrightarrow> s \<noteq> []"

text \<open>
  A property that may be absent (\<open>undefined\<close> or \<open>null\<close>) is an option;
  \<open>x || d\<close> on such a property yields \<open>d\<close> when \<open>x\<close> is absent or the empty string.
\<close>

definition orElse :: "jsstring option \<Rightarrow> jsstring \<Rightarrow> jsstring" where
  "orElse x d = (case x of None \<Rightarrow> d | Some s \<Rightarrow> if truthy s then s else d)"


section \<open>The chat component (src/components/ChatInterface.js)\<close>

subsection \<open>State\<close>

datatype role = User | Assistant

text \<open>
  A turn of the log.  The content of an assistant turn is \<open>data.message\<close> of the reply,
  which is \<open>undefined\<close> (\<open>None\<close>) when the reply carries no such property.
\<close>

record turn =
  role :: role
  content :: "jsstring option"

text \<open>The values held by the component's \<open>useState\<close> hooks.\<close>

record chat_state =
  messages :: "turn list"
  input :: jsstring
  isLoading :: bool
  autoScroll :: bool
  darkMode :: bool
  showSettings :: bool

definition greeting :: turn where
  "greeting = \<lparr>role = Assistant,
     content = Some (js ''Hello! I'' @ [0x27] @ js ''m your chatbot assistant. How can I help you today?'')\<rparr>"

definition initial :: chat_state where
  "initial = \<lparr>messages = [greeting], input = [], isLoading = False,
     autoScroll = True, darkMode = False, showSettings = False\<rparr>"

subsection \<open>The request to /api/chat and what comes back\<close>

record fetch_request =
  url :: jsstring
  http_method :: jsstring
  headers :: "(jsstring \<times> jsstring) list"
  body_messages :: "turn list"

text \<open>The parsed body of a response: the two properties that \<open>sendMessage\<close> reads.\<close>

record payload =
  message :: "jsstring option"
  error :: "jsstring option"

text \<open>
  \<open>await response.json()\<close> either yields the parsed body or raises (the body is not
  JSON, or the property access on a parsed \<open>null\<close> raises); the argument of
  \<open>JsonThrows\<close> is the \<open>message\<close> of the error raised.
\<close>

datatype json_outcome = Json payload | JsonThrows jsstring

text \<open>
  \<open>await fetch(...)\<close> either rejects (a network failure, with the error's \<open>message\<close>)
  or resolves to a response, of which \<open>sendMessage\<close> reads \<open>response.ok\<close> and the body.
\<close>

datatype fetch_outcome = Rejected jsstring | Responded bool json_outcome

subsection \<open>Effects\<close>

text \<open>
  The calls \<open>sendMessage\<close> makes, in program order.  \<open>SetMessages t\<close> is
  \<open>setMessages(prev => [...prev, t])\<close>.
\<close>

datatype effect =
    PreventDefault
  | SetMessages turn
  | SetInput jsstring
  | SetIsLoading bool
  | Fetch fetch_request

fun apply_effect :: "chat_state \<Rightarrow> effect \<Rightarrow> chat_state" where
  "apply_effect st PreventDefault = st"
| "apply_effect st (SetMessages t) = st\<lparr>messages := messages st @ [t]\<rparr>"
| "apply_effect st (SetInput s) = st\<lparr>input := s\<rparr>"
| "apply_effect st (SetIsLoading b) = st\<lparr>isLoading := b\<rparr>"
| "apply_effect st (Fetch rq) = st"

definition run :: "chat_state \<Rightarrow> effect list \<Rightarrow> chat_state" where
  "run st es = foldl apply_effect st es"

text \<open>How a block of statements ends: normally, or by raising an error with a message.\<close>

datatype completion = Completed | Raised jsstring

subsection \<open>sendMessage\<close>

definition userMessage :: "chat_state \<Rightarrow> turn" where
  "userMessage st = \<lparr>role = User, content = Some (input st)\<rparr>"

definition chatRequest :: "chat_state \<Rightarrow> fetch_request" where
  "chatRequest st = \<lparr>url = js ''/api/chat'', http_method = js ''POST'',
     headers = [(js ''Content-Type'', js ''application/json'')],
     body_messages = messages st @ [userMessage st]\<rparr>"

text \<open>The guard of line 45: \<open>if (!input.trim() || isLoading) return\<close>.\<close>

definition rejected :: "chat_state \<Rightarrow> bool" where
  "rejected st \<longleftrightarrow> \<not> truthy (trim (input st)) \<or> isLoading st"

text \<open>
  The synchronous part, up to the first \<open>await\<close>: the values \<open>input\<close>, \<open>isLoading\<close> and
  \<open>messages\<close> are those of the render in which the handler was created, that is, of the
  state \<open>st\<close> in which the event arrives.
\<close>

definition sendMessage_sync :: "chat_state \<Rightarrow> effect list" where
  "sendMessage_sync st =
     (if rejected st then [PreventDefault]
      else [PreventDefault, SetMessages (userMessage st), SetInput [], SetIsLoading True,
            Fetch (chatRequest st)])"

text \<open>The rest of the \<open>try\<close> block, once \<open>fetch\<close> has settled (lines 63 to 72).\<close>

definition tryBlock :: "fetch_outcome \<Rightarrow> effect list \<times> completion" where
  "tryBlock r =
     (case r of
        Rejected m \<Rightarrow> ([], Raised m)
      | Responded ok b \<Rightarrow>
          (case b of
             JsonThrows m \<Rightarrow> ([], Raised m)
           | Json data \<Rightarrow>
               if ok then ([SetMessages \<lparr>role = Assistant, content = message data\<rparr>], Completed)
               else ([SetMessages \<lparr>role = Assistant,
                        content = Some (js ''Error: '' @ orElse (error data) (js ''Something went wrong''))\<rparr>],
                     Completed)))"

definition catchBlock :: "jsstring \<Rightarrow> effect list \<times> completion" where
  "catchBlock m = ([SetMessages \<lparr>role = Assistant, content = Some (js ''Error: '' @ m)\<rparr>], Completed)"

definition finallyBlock :: "effect list \<times> completion" where
  "finallyBlock = ([SetIsLoading False], Completed)"

text \<open>
  \<open>try { ... } catch (error) { ... } finally { ... }\<close>: the handler runs when the block
  raises, the finaliser always, and an error raised by the finaliser replaces the
  completion of what came before.
\<close>

definition tryCatchFinally ::
  "effect list \<times> completion \<Rightarrow> (jsstring \<Rightarrow> effect list \<times> completion) \<Rightarrow>
   effect list \<times> completion \<Rightarrow> effect list \<times> completion" where
  "tryCatchFinally body handler finaliser =
     (let (e1, c1) = body;
          (e2, c2) = (case c1 of Raised m \<Rightarrow> handler m | Completed \<Rightarrow> ([], Completed));
          (e3, c3) = finaliser
      in (e1 @ e2 @ e3, case c3 of Raised m \<Rightarrow> Raised m | Completed \<Rightarrow> c2))"

definition sendMessage_resume :: "fetch_outcome \<Rightarrow> effect list \<times> completion" where
  "sendMessage_resume r = tryCatchFinally (tryBlock r) catchBlock finallyBlock"

text \<open>
  One whole call: \<open>fetch\<close> tells how the environment answers the request.  The result is
  the effects in program order and how the call ends.
\<close>

definition sendMessage :: "chat_state \<Rightarrow> (fetch_request \<Rightarrow> fetch_outcome) \<Rightarrow> effect list \<times> completion" where
  "sendMessage st fetch =
     (if rejected st then (sendMessage_sync st, Completed)
      else (let (es, c) = sendMessage_resume (fetch (chatRequest st))
            in (sendMessage_sync st @ es, c)))"

text \<open>The state after the call.\<close>

definition after :: "chat_state \<Rightarrow> (fetch_request \<Rightarrow> fetch_outcome) \<Rightarrow> chat_state" where
  "after st fetch = run st (fst (sendMessage st fetch))"

text \<open>
  The turn appended once the \<open>fetch\<close> has settled with outcome \<open>r\<close>, over the three
  places that append one (lines 66, 68 and 74).
\<close>

definition replyTurn :: "fetch_outcome \<Rightarrow> turn" where
  "replyTurn r =
     \<lparr>role = Assistant,
      content =
        (case r of
           Rejected m \<Rightarrow> Some (js ''Error: '' @ m)
         | Responded ok (JsonThrows m) \<Rightarrow> Some (js ''Error: '' @ m)
         | Responded ok (Json d) \<Rightarrow>
             if ok then message d
             else Some (js ''Error: '' @ orElse (error d) (js ''Something went wrong'')))\<rparr>"


section \<open>The route /api/chat (pages/api/chat.js)\<close>

subsection \<open>Requests, responses and the completion API\<close>

text \<open>
  \<open>req.body.messages\<close> as the handler tests it: absent, a value that is not an array
  (with its truthiness), or an array.  The elements of the array are passed on unread.
\<close>

datatype 'm messages_field = Missing | NotArray bool | IsArray "'m list"

text \<open>
  \<open>req.body\<close>: \<open>null\<close> or \<open>undefined\<close>, on which the destructuring of line 56 raises a
  TypeError, or any other value, with its \<open>messages\<close> property.
\<close>

datatype 'm request_body = Nullish | BodyWith "'m messages_field"

record 'm http_request =
  req_method :: jsstring
  req_body :: "'m request_body"

text \<open>The object given to \<open>res.json\<close>; a property set to \<open>undefined\<close> is absent.\<close>

record response_json = payload +
  details :: "jsstring option"

record http_response =
  status :: nat
  res_json :: response_json

text \<open>The argument of \<open>openrouter.chat.completions.create\<close>.\<close>

record 'm completion_request =
  model :: jsstring
  req_messages :: "'m list"
  max_tokens :: nat
  temperature :: rat

text \<open>An error as the \<open>catch\<close> clause reads it: \<open>error.status\<close> and \<open>error.message\<close>.\<close>

record api_error =
  err_status :: "int option"
  err_message :: jsstring

text \<open>
  The value the completion API resolves to, as far as
  \<open>completion.choices[0]?.message?.content\<close> reads it.  An absent \<open>choices\<close> is \<open>None\<close>; a
  first choice that is itself \<open>null\<close> or \<open>undefined\<close> reads like one without a message.
\<close>

datatype chat_message = ChatMessage (msg_content: "jsstring option")
datatype choice = Choice (choice_message: "chat_message option")
datatype chat_completion = ChatCompletion (choices: "choice list option")

datatype upstream_outcome = Throws api_error | Resolves chat_completion

text \<open>
  What the handler takes from its process: \<open>process.env.NODE_ENV\<close>, and the message
  texts of the TypeErrors of the JavaScript engine at the two places that can raise one.
\<close>

datatype site = DestructureBody | ReadChoices

record env =
  NODE_ENV :: "jsstring option"
  typeErrorMessage :: "site \<Rightarrow> jsstring"

definition typeError :: "env \<Rightarrow> site \<Rightarrow> api_error" where
  "typeError ev s = \<lparr>err_status = None, err_message = typeErrorMessage ev s\<rparr>"

subsection \<open>The handler\<close>

definition respondError :: "nat \<Rightarrow> jsstring \<Rightarrow> http_response" where
  "respondError code text =
     \<lparr>status = code, res_json = \<lparr>message = None, error = Some text, details = None\<rparr>\<rparr>"

text \<open>Line 69: \<open>completion.choices[0]?.message?.content\<close>.\<close>

definition replyOf :: "env \<Rightarrow> chat_completion \<Rightarrow> api_error + jsstring option" where
  "replyOf ev c =
     (case choices c of
        None \<Rightarrow> Inl (typeError ev ReadChoices)
      | Some [] \<Rightarrow> Inr None
      | Some (ch # _) \<Rightarrow>
          (case choice_message ch of None \<Rightarrow> Inr None | Some m \<Rightarrow> Inr (msg_content m)))"

definition completionRequest :: "'m list \<Rightarrow> 'm completion_request" where
  "completionRequest ms =
     \<lparr>model = js ''meta-llama/llama-3.2-3b-instruct:free'', req_messages = ms,
      max_tokens = 500, temperature = 7 / 10\<rparr>"

text \<open>
  The \<open>try\<close> block (lines 56 to 75): the requests made to the completion API, and either
  the error raised or the response sent.
\<close>

definition handlerTry ::
  "env \<Rightarrow> ('m completion_request \<Rightarrow> upstream_outcome) \<Rightarrow> 'm request_body \<Rightarrow>
   'm completion_request list \<times> (api_error + http_response)" where
  "handlerTry ev upstream b =
     (case b of
        Nullish \<Rightarrow> ([], Inl (typeError ev DestructureBody))
      | BodyWith f \<Rightarrow>
          (case f of
             Missing \<Rightarrow> ([], Inr (respondError 400 (js ''Messages array is required'')))
           | NotArray t \<Rightarrow> ([], Inr (respondError 400 (js ''Messages array is required'')))
           | IsArray ms \<Rightarrow>
               (case upstream (completionRequest ms) of
                  Throws e \<Rightarrow> ([completionRequest ms], Inl e)
                | Resolves c \<Rightarrow>
                    (case replyOf ev c of
                       Inl e \<Rightarrow> ([completionRequest ms], Inl e)
                     | Inr reply \<Rightarrow>
                         (case reply of
                            None \<Rightarrow> ([completionRequest ms],
                                      Inr (respondError 500 (js ''No response from API'')))
                          | Some text \<Rightarrow>
                              if truthy text
                              then ([completionRequest ms],
                                    Inr \<lparr>status = 200,
                                         res_json = \<lparr>message = Some text, error = None, details = None\<rparr>\<rparr>)
                              else ([completionRequest ms],
                                    Inr (respondError 500 (js ''No response from API''))))))))"

text \<open>The \<open>catch\<close> clause (lines 77 to 93), after its \<open>console.error\<close>.\<close>

definition handlerCatch :: "env \<Rightarrow> api_error \<Rightarrow> http_response" where
  "handlerCatch ev e =
     (if err_status e = Some 401 then respondError 401 (js ''Invalid API key'')
      else if err_status e = Some 429 then respondError 429 (js ''Rate limit exceeded'')
      else if err_status e = Some 402 then respondError 402 (js ''Insufficient credits'')
      else \<lparr>status = 500,
            res_json = \<lparr>message = None, error = Some (js ''Internal server error''),
              details = (if NODE_ENV ev = Some (js ''development'') then Some (err_message e) else None)\<rparr>\<rparr>)"

text \<open>
  What one run of the handler does: the requests it makes to the completion API, the
  errors it writes to the console (\<open>console.error('Chat API error:', error)\<close>), and the
  response it sends.
\<close>

record 'm handled =
  gateway_calls :: "'m completion_request list"
  logged :: "api_error list"
  response :: http_response

definition handler ::
  "env \<Rightarrow> ('m completion_request \<Rightarrow> upstream_outcome) \<Rightarrow> 'm http_request \<Rightarrow> 'm handled" where
  "handler ev upstream req =
     (if req_method req \<noteq> js ''POST''
      then \<lparr>gateway_calls = [], logged = [], response = respondError 405 (js ''Method not allowed'')\<rparr>
      else (case handlerTry ev upstream (req_body req) of
              (calls, Inl e) \<Rightarrow> \<lparr>gateway_calls = calls, logged = [e], response = handlerCatch ev e\<rparr>
            | (calls, Inr res) \<Rightarrow> \<lparr>gateway_calls = calls, logged = [], response = res\<rparr>))"

subsection \<open>The component served by the route\<close>

text \<open>
  The environment in which the \<open>fetch\<close> of the component reaches this handler and the
  handler's response comes back: the body \<open>JSON.stringify({messages: ...})\<close> is parsed into
  \<open>req.body\<close>, \<open>response.ok\<close> is a status from 200 to 299, and \<open>response.json()\<close> is the
  object the handler gave to \<open>res.json\<close>.
\<close>

definition servedBy ::
  "env \<Rightarrow> (turn completion_request \<Rightarrow> upstream_outcome) \<Rightarrow> fetch_request \<Rightarrow> fetch_outcome" where
  "servedBy ev upstream rq =
     (let res = response (handler ev upstream
                  \<lparr>req_method = http_method rq, req_body = BodyWith (IsArray (body_messages rq))\<rparr>)
      in Responded (200 \<le> status res \<and> status res \<le> 299)
           (Json \<lparr>message = message (res_json res), error = error (res_json res)\<rparr>))"


section \<open>The page: events, renders and the theme effect\<close>

text \<open>
  \<open>document.body.style\<close>, of which the component assigns two properties.
\<close>

record body_style =
  backgroundColor :: jsstring
  color :: jsstring

record page =
  ui :: chat_state
  bodyStyle :: body_style

text \<open>The effect of lines 32 to 40.\<close>

definition themeEffect :: "bool \<Rightarrow> body_style \<Rightarrow> body_style" where
  "themeEffect dark s =
     (if dark then s\<lparr>backgroundColor := js ''#1a1a1a'', color := js ''#ffffff''\<rparr>
      else s\<lparr>backgroundColor := js ''#f5f5f5'', color := js ''#000000''\<rparr>)"

text \<open>
  The first render: the hooks hold their initial values and every effect runs once.
  \<open>s0\<close> is the style of the body before the component is mounted.
\<close>

definition mount :: "body_style \<Rightarrow> page" where
  "mount s0 = \<lparr>ui = initial, bodyStyle = themeEffect (darkMode initial) s0\<rparr>"

text \<open>
  A later render with the new state: the effect has the dependency array \<open>[darkMode]\<close>,
  so it runs only when \<open>darkMode\<close> has changed.
\<close>

definition rerender :: "chat_state \<Rightarrow> page \<Rightarrow> page" where
  "rerender st' p =
     \<lparr>ui = st',
      bodyStyle = (if darkMode st' \<noteq> darkMode (ui p) then themeEffect (darkMode st') (bodyStyle p)
                   else bodyStyle p)\<rparr>"

text \<open>
  The events of the page.  The text input is disabled while \<open>isLoading\<close>; the dark mode
  checkbox and the Close button exist only while the settings panel is shown; a
  \<open>fetch\<close> settles only while one is under way, which is exactly while \<open>isLoading\<close>.
\<close>

datatype event =
    InputChange jsstring
  | SubmitForm
  | FetchSettled fetch_outcome
  | AutoScrollChange bool
  | SettingsClick
  | DarkModeChange bool
  | CloseClick

fun step :: "page \<Rightarrow> event \<Rightarrow> page" where
  "step p (InputChange v) =
     (if isLoading (ui p) then p else rerender ((ui p)\<lparr>input := v\<rparr>) p)"
| "step p SubmitForm = rerender (run (ui p) (sendMessage_sync (ui p))) p"
| "step p (FetchSettled r) =
     (if isLoading (ui p) then rerender (run (ui p) (fst (sendMessage_resume r))) p else p)"
| "step p (AutoScrollChange b) = rerender ((ui p)\<lparr>autoScroll := b\<rparr>) p"
| "step p SettingsClick = rerender ((ui p)\<lparr>showSettings := \<not> showSettings (ui p)\<rparr>) p"
| "step p (DarkModeChange b) =
     (if showSettings (ui p) then rerender ((ui p)\<lparr>darkMode := b\<rparr>) p else p)"
| "step p CloseClick =
     (if showSettings (ui p) then rerender ((ui p)\<lparr>showSettings := False\<rparr>) p else p)"

definition steps :: "page \<Rightarrow> event list \<Rightarrow> page" where
  "steps p es = foldl step p es"

inductive reachable :: "page \<Rightarrow> bool" where
  mounted: "reachable (mount s0)"
| stepped: "reachable p \<Longrightarrow> reachable (step p e)"

text \<open>
  The user toggles the dark mode checkbox: the change event carries the negation of the
  value the checkbox shows.
\<close>

definition toggleTheme :: "page \<Rightarrow> page" where
  "toggleTheme p = step p (DarkModeChange (\<not> darkMode (ui p)))"

text \<open>
  One exchange as the user makes it: type the text, submit, and the \<open>fetch\<close> settles
  with outcome \<open>r\<close> before anything else happens.
\<close>

definition exchange :: "jsstring \<times> fetch_outcome \<Rightarrow> event list" where
  "exchange x = [InputChange (fst x), SubmitForm, FetchSettled (snd x)]"

definition exchanges :: "(jsstring \<times> fetch_outcome) list \<Rightarrow> event list" where
  "exchanges xs = concat (map exchange xs)"

text \<open>The outcomes of \<open>fetch\<close> in which the exchange has failed, and the others.\<close>

fun gatewayFailure :: "fetch_outcome \<Rightarrow> bool" where
  "gatewayFailure (Rejected m) = True"
| "gatewayFailure (Responded ok (JsonThrows m)) = True"
| "gatewayFailure (Responded ok (Json d)) = (\<not> ok)"

definition isErrorTurn :: "turn \<Rightarrow> bool" where
  "isErrorTurn t \<longleftrightarrow>
     role t = Assistant \<and> (case content t of None \<Rightarrow> False | Some c \<Rightarrow> prefix (js ''Error: '') c)"


section \<open>Persistence (src/lib/database.js)\<close>

text \<open>
  The calls made on the Supabase client, and how each settles: the promise rejects, or
  it resolves to \<open>{ data, error }\<close>.  Rows are not inspected by this module.
\<close>

datatype ('row, 'key) query =
    Rpc jsstring
  | InsertSelectSingle jsstring 'row
  | SelectEqOrder jsstring jsstring 'key jsstring bool
  | SelectEqSingle jsstring jsstring 'key

datatype 'row data = Null | Row 'row | Rows "'row list"

text \<open>
  The \<open>error\<close> of a result, with its \<open>message\<close> property if it has one; and what can be
  raised inside the functions of the module: such an error, a rejection of the client's
  promise, or the TypeError of calling \<open>includes\<close> on an absent message.
\<close>

datatype service_error = ServiceError "jsstring option"

datatype thrown = ErrorOf service_error | Rejection | TypeError

datatype 'row query_outcome = QueryRejects | QueryResolves "'row data" "service_error option"

type_synonym ('row, 'key) client = "('row, 'key) query \<Rightarrow> 'row query_outcome"

datatype console = ConsoleLog jsstring | ConsoleError jsstring

text \<open>
  Every function of the module yields what it wrote to the console, and either the error
  it lets escape to its caller (\<open>Inl\<close>) or the value it returns (\<open>Inr\<close>).
\<close>

type_synonym 'a db_result = "console list \<times> (thrown + 'a)"

definition CONVERSATIONS :: jsstring where "CONVERSATIONS = js ''conversations''"
definition MESSAGES :: jsstring where "MESSAGES = js ''messages''"
definition USERS :: jsstring where "USERS = js ''users''"

definition includes_str :: "jsstring \<Rightarrow> jsstring \<Rightarrow> bool" where
  "includes_str s part \<longleftrightarrow> sublist part s"

text \<open>
  \<open>try { ... } catch (error) { console.error(label, error); return v }\<close> around a block
  that writes nothing to the console itself.
\<close>

definition catching :: "jsstring \<Rightarrow> 'a \<Rightarrow> thrown + 'a \<Rightarrow> 'a db_result" where
  "catching label v body =
     (case body of Inl e \<Rightarrow> ([ConsoleError label], Inr v) | Inr x \<Rightarrow> ([], Inr x))"

text \<open>\<open>const { data, error } = await ...; if (error) throw error; return data\<close>.\<close>

definition dataOrThrow :: "'row query_outcome \<Rightarrow> thrown + 'row data" where
  "dataOrThrow r =
     (case r of
        QueryRejects \<Rightarrow> Inl Rejection
      | QueryResolves d err \<Rightarrow> (case err of Some e \<Rightarrow> Inl (ErrorOf e) | None \<Rightarrow> Inr d))"

text \<open>The same with \<open>return data || []\<close>: an array, even an empty one, is truthy.\<close>

definition dataOrEmpty :: "'row data \<Rightarrow> 'row data" where
  "dataOrEmpty d = (case d of Null \<Rightarrow> Rows [] | Row r \<Rightarrow> Row r | Rows rs \<Rightarrow> Rows rs)"

definition saveConversation :: "('row, 'key) client option \<Rightarrow> 'row \<Rightarrow> 'row data db_result" where
  "saveConversation supabase conversationData =
     (case supabase of
        None \<Rightarrow> ([], Inr Null)
      | Some client \<Rightarrow>
          catching (js ''Error saving conversation:'') Null
            (dataOrThrow (client (InsertSelectSingle CONVERSATIONS conversationData))))"

definition saveMessage :: "('row, 'key) client option \<Rightarrow> 'row \<Rightarrow> 'row data db_result" where
  "saveMessage supabase messageData =
     (case supabase of
        None \<Rightarrow> ([], Inr Null)
      | Some client \<Rightarrow>
          catching (js ''Error saving message:'') Null
            (dataOrThrow (client (InsertSelectSingle MESSAGES messageData))))"

definition getConversationHistory :: "('row, 'key) client option \<Rightarrow> 'key \<Rightarrow> 'row data db_result" where
  "getConversationHistory supabase conversationId =
     (case supabase of
        None \<Rightarrow> ([], Inr (Rows []))
      | Some client \<Rightarrow>
          catching (js ''Error fetching conversation history:'') (Rows [])
            (map_sum id dataOrEmpty
               (dataOrThrow (client (SelectEqOrder MESSAGES (js ''conversation_id'') conversationId
                                        (js ''created_at'') True)))))"

definition getUserConversations :: "('row, 'key) client option \<Rightarrow> 'key \<Rightarrow> 'row data db_result" where
  "getUserConversations supabase userId =
     (case supabase of
        None \<Rightarrow> ([], Inr (Rows []))
      | Some client \<Rightarrow>
          catching (js ''Error fetching user conversations:'') (Rows [])
            (map_sum id dataOrEmpty
               (dataOrThrow (client (SelectEqOrder CONVERSATIONS (js ''user_id'') userId
                                        (js ''updated_at'') False)))))"

definition createUser :: "('row, 'key) client option \<Rightarrow> 'row \<Rightarrow> 'row data db_result" where
  "createUser supabase userData =
     (case supabase of
        None \<Rightarrow> ([], Inr Null)
      | Some client \<Rightarrow>
          catching (js ''Error creating user:'') Null
            (dataOrThrow (client (InsertSelectSingle USERS userData))))"

definition getUserById :: "('row, 'key) client option \<Rightarrow> 'key \<Rightarrow> 'row data db_result" where
  "getUserById supabase userId =
     (case supabase of
        None \<Rightarrow> ([], Inr Null)
      | Some client \<Rightarrow>
          catching (js ''Error fetching user:'') Null
            (dataOrThrow (client (SelectEqSingle USERS (js ''id'') userId))))"

text \<open>
  One of the three steps of \<open>initializeDatabase\<close>: the remote procedure is called, and
  an error other than "already exists" is written to the console.
\<close>

definition createTable :: "('row, 'key) client \<Rightarrow> jsstring \<Rightarrow> jsstring \<Rightarrow> unit db_result" where
  "createTable client procedure label =
     (case client (Rpc procedure) of
        QueryRejects \<Rightarrow> ([], Inl Rejection)
      | QueryResolves d err \<Rightarrow>
          (case err of
             None \<Rightarrow> ([], Inr ())
           | Some (ServiceError None) \<Rightarrow> ([], Inl TypeError)
           | Some (ServiceError (Some m)) \<Rightarrow>
               if includes_str m (js ''already exists'') then ([], Inr ())
               else ([ConsoleError label], Inr ())))"

text \<open>Statements in sequence: the second runs only if the first has not raised.\<close>

definition andThen :: "unit db_result \<Rightarrow> unit db_result \<Rightarrow> unit db_result" where
  "andThen a b =
     (case snd a of Inl e \<Rightarrow> a | Inr u \<Rightarrow> (fst a @ fst b, snd b))"

definition initializeDatabase :: "('row, 'key) client option \<Rightarrow> unit db_result" where
  "initializeDatabase supabase =
     (case supabase of
        None \<Rightarrow> ([ConsoleLog (js ''Supabase not configured - skipping database initialization'')], Inr ())
      | Some client \<Rightarrow>
          (let body =
             andThen (createTable client (js ''create_conversations_table'')
                        (js ''Error creating conversations table:''))
            (andThen (createTable client (js ''create_messages_table'')
                        (js ''Error creating messages table:''))
            (andThen (createTable client (js ''create_users_table'')
                        (js ''Error creating users table:''))
                     ([ConsoleLog (js ''Database tables initialized successfully'')], Inr ())))
           in (case snd body of
                 Inl e \<Rightarrow> (fst body @ [ConsoleError (js ''Database initialization error:'')], Inr ())
               | Inr u \<Rightarrow> body)))"

text \<open>
  The module's client: \<open>null\<close> unless both \<open>NEXT_PUBLIC_SUPABASE_URL\<close> and
  \<open>NEXT_PUBLIC_SUPABASE_ANON_KEY\<close> are set to non-empty strings.
\<close>

definition supabaseClient ::
  "jsstring option \<Rightarrow> jsstring option \<Rightarrow> (jsstring \<Rightarrow> jsstring \<Rightarrow> ('row, 'key) client) \<Rightarrow>
   ('row, 'key) client option" where
  "supabaseClient supabaseUrl supabaseAnonKey createClient =
     (case (supabaseUrl, supabaseAnonKey) of
        (Some u, Some k) \<Rightarrow> if truthy u \<and> truthy k then Some (createClient u k) else None
      | _ \<Rightarrow> None)"


text \<open>
  A call of the client has failed when its promise rejects or its result carries an
  error; the persistence is unavailable for a query when there is no client or the
  client's call fails.  A function of the module raises when an error escapes from it.
\<close>

fun queryFails :: "'row query_outcome \<Rightarrow> bool" where
  "queryFails QueryRejects = True"
| "queryFails (QueryResolves d err) = (err \<noteq> None)"

definition unavailable :: "('row, 'key) client option \<Rightarrow> ('row, 'key) query \<Rightarrow> bool" where
  "unavailable supabase q = (case supabase of None \<Rightarrow> True | Some client \<Rightarrow> queryFails (client q))"

definition raises :: "'a db_result \<Rightarrow> bool" where
  "raises r = (case snd r of Inl e \<Rightarrow> True | Inr v \<Rightarrow> False)"

section \<open>Concrete inputs\<close>

text \<open>
  The state in which the user has typed "Hello" into the fresh component, a process
  environment, and completion APIs that answer every request with a given text or fail
  every request with a given status.
\<close>

definition hello :: chat_state where
  "hello = initial\<lparr>input := js ''Hello''\<rparr>"

definition ev0 :: env where
  "ev0 = \<lparr>NODE_ENV = Some (js ''production''), typeErrorMessage = (\<lambda>s. js ''TypeError'')\<rparr>"

definition replies :: "jsstring \<Rightarrow> 'm completion_request \<Rightarrow> upstream_outcome" where
  "replies text rq = Resolves (ChatCompletion (Some [Choice (Some (ChatMessage (Some text)))]))"

definition fails :: "int \<Rightarrow> 'm completion_request \<Rightarrow> upstream_outcome" where
  "fails code rq = Throws \<lparr>err_status = Some code, err_message = js ''upstream error''\<rparr>"

text \<open>A client whose every call rejects, and one that knows no row.\<close>

definition offline :: "(nat, nat) client" where
  "offline q = QueryRejects"

definition noRows :: "(nat, nat) client" where
  "noRows q = QueryResolves Null (Some (ServiceError (Some (js ''no rows returned''))))"

definition blank :: "body_style" where
  "blank = \<lparr>backgroundColor = [], color = []\<rparr>"


section \<open>Strings\<close>

lemma of_char_word_inj: "(of_char c :: 16 word) = of_char d \<Longrightarrow> c = d"
proof -
  assume h: "(of_char c :: 16 word) = of_char d"
  have lt: "(of_char x :: nat) < 2 ^ 16" for x :: char
  proof -
    have "(of_char x :: nat) < 256"
      by (metis of_char_mod_256 mod_less_divisor zero_less_numeral)
    then have "(of_char x :: nat) < 65536" by linarith
    also have "(65536 :: nat) = 2 ^ 16" by simp
    finally show ?thesis .
  qed
  have "(of_nat (of_char c) :: 16 word) = of_nat (of_char d)"
    using h by (simp only: of_nat_of_char)
  then have "take_bit 16 (of_char c :: nat) = take_bit 16 (of_char d :: nat)"
    by (simp add: word_of_nat_eq_iff)
  then have "(of_char c :: nat) = of_char d"
    using lt [of c] lt [of d] by (simp add: take_bit_nat_eq_self)
  then show "c = d" by simp
qed

lemma js_eq_iff [simp]: "js s = js t \<longleftrightarrow> s = t"
proof
  assume "js s = js t"
  then show "s = t"
    unfolding js_def
  proof (induction s arbitrary: t)
    case Nil
    then show ?case by simp
  next
    case (Cons a s)
    then show ?case by (cases t) (auto dest: of_char_word_inj)
  qed
qed simp

lemma js_append: "js (a @ b) = js a @ js b"
  by (simp add: js_def)

text \<open>A string trims to the empty string exactly when it is whitespace throughout.\<close>

lemma trim_Nil_iff: "trim s = [] \<longleftrightarrow> (\<forall>c \<in> set s. isWhiteSpace c)"
proof -
  have "(\<forall>x \<in> set (dropWhile isWhiteSpace s). isWhiteSpace x) \<longleftrightarrow> dropWhile isWhiteSpace s = []"
  proof
    assume all: "\<forall>x \<in> set (dropWhile isWhiteSpace s). isWhiteSpace x"
    show "dropWhile isWhiteSpace s = []"
    proof (rule ccontr)
      assume ne: "dropWhile isWhiteSpace s \<noteq> []"
      then have "\<not> isWhiteSpace (hd (dropWhile isWhiteSpace s))" by (rule hd_dropWhile)
      moreover have "hd (dropWhile isWhiteSpace s) \<in> set (dropWhile isWhiteSpace s)"
        using ne by simp
      ultimately show False using all by blast
    qed
  next
    assume e: "dropWhile isWhiteSpace s = []"
    show "\<forall>x \<in> set (dropWhile isWhiteSpace s). isWhiteSpace x"
      unfolding e by simp
  qed
  then show ?thesis by (simp add: trim_def)
qed


section \<open>Properties of sendMessage\<close>

lemma run_Nil [simp]: "run st [] = st"
  by (simp add: run_def)

lemma run_Cons [simp]: "run st (e # es) = run (apply_effect st e) es"
  by (simp add: run_def)

lemma rejected_iff: "rejected st \<longleftrightarrow> (\<forall>c \<in> set (input st). isWhiteSpace c) \<or> isLoading st"
  by (simp add: rejected_def truthy_def trim_Nil_iff)

lemma accepted_iff: "\<not> rejected st \<longleftrightarrow> trim (input st) \<noteq> [] \<and> \<not> isLoading st"
  by (simp add: rejected_def truthy_def)

lemma sendMessage_rejected: "rejected st \<Longrightarrow> sendMessage st fetch = ([PreventDefault], Completed)"
  by (simp add: sendMessage_def sendMessage_sync_def)

lemma sendMessage_resume_eq:
  "sendMessage_resume r = ([SetMessages (replyTurn r), SetIsLoading False], Completed)"
  by (simp add: sendMessage_resume_def tryCatchFinally_def tryBlock_def catchBlock_def
      finallyBlock_def replyTurn_def split: fetch_outcome.splits json_outcome.splits)

lemma sendMessage_accepted:
  "\<not> rejected st \<Longrightarrow>
   sendMessage st fetch =
     ([PreventDefault, SetMessages (userMessage st), SetInput [], SetIsLoading True,
       Fetch (chatRequest st), SetMessages (replyTurn (fetch (chatRequest st))),
       SetIsLoading False], Completed)"
  by (simp add: sendMessage_def sendMessage_sync_def sendMessage_resume_eq)

lemma after_accepted:
  "\<not> rejected st \<Longrightarrow>
   after st fetch =
     st\<lparr>messages := messages st @ [userMessage st, replyTurn (fetch (chatRequest st))],
        input := [], isLoading := False\<rparr>"
  by (simp add: after_def sendMessage_accepted)

lemma replyTurn_failure: "gatewayFailure r \<Longrightarrow> isErrorTurn (replyTurn r)"
  by (cases r rule: gatewayFailure.cases) (simp_all add: replyTurn_def isErrorTurn_def)

lemma hello_accepted: "trim (input hello) \<noteq> [] \<and> \<not> isLoading hello"
  by (simp add: hello_def initial_def trim_def js_def isWhiteSpace_def)

text \<open>
  C3.  When the input is empty or consists of whitespace only, or when an exchange is
  pending, \<open>sendMessage\<close> does nothing beyond \<open>e.preventDefault()\<close>: it changes no state
  (the log and the pending flag stay as they are), sends no request, and ends normally.
\<close>

theorem submit_guard_noop:
  assumes "(\<forall>c \<in> set (input st). isWhiteSpace c) \<or> isLoading st"
  shows "sendMessage st fetch = ([PreventDefault], Completed) \<and> after st fetch = st"
proof -
  from assms have "rejected st" by (simp add: rejected_iff)
  then show ?thesis by (simp add: after_def sendMessage_rejected)
qed

theorem submit_guard_noop_witness:
  "sendMessage (initial\<lparr>input := js ''   ''\<rparr>) (servedBy ev0 (replies (js ''Hi'')))
     = ([PreventDefault], Completed) \<and>
   after (initial\<lparr>input := js ''   ''\<rparr>) (servedBy ev0 (replies (js ''Hi'')))
     = initial\<lparr>input := js ''   ''\<rparr>"
proof -
  have h: "(\<forall>c \<in> set (input (initial\<lparr>input := js ''   ''\<rparr>)). isWhiteSpace c)
           \<or> isLoading (initial\<lparr>input := js ''   ''\<rparr>)"
    by (simp add: js_def isWhiteSpace_def)
  show ?thesis using submit_guard_noop [OF h] by simp
qed

section \<open>Properties of the route and of the component served by it\<close>

lemma handler_not_post:
  "req_method req \<noteq> js ''POST'' \<Longrightarrow>
   handler ev upstream req =
     \<lparr>gateway_calls = [], logged = [], response = respondError 405 (js ''Method not allowed'')\<rparr>"
  by (simp add: handler_def)

lemma handler_no_array:
  "req_method req = js ''POST'' \<Longrightarrow> req_body req = BodyWith f \<Longrightarrow> f = Missing \<or> f = NotArray t \<Longrightarrow>
   handler ev upstream req =
     \<lparr>gateway_calls = [], logged = [], response = respondError 400 (js ''Messages array is required'')\<rparr>"
  by (auto simp: handler_def handlerTry_def)

lemma handler_nullish:
  "req_method req = js ''POST'' \<Longrightarrow> req_body req = Nullish \<Longrightarrow>
   handler ev upstream req =
     \<lparr>gateway_calls = [], logged = [typeError ev DestructureBody],
      response = handlerCatch ev (typeError ev DestructureBody)\<rparr>"
  by (simp add: handler_def handlerTry_def)

lemma handler_throws:
  "req_method req = js ''POST'' \<Longrightarrow> req_body req = BodyWith (IsArray ms) \<Longrightarrow>
   upstream (completionRequest ms) = Throws e \<Longrightarrow>
   handler ev upstream req =
     \<lparr>gateway_calls = [completionRequest ms], logged = [e], response = handlerCatch ev e\<rparr>"
  by (simp add: handler_def handlerTry_def)

lemma handler_resolves:
  "req_method req = js ''POST'' \<Longrightarrow> req_body req = BodyWith (IsArray ms) \<Longrightarrow>
   upstream (completionRequest ms) = Resolves c \<Longrightarrow>
   handler ev upstream req =
     (case replyOf ev c of
        Inl e \<Rightarrow> \<lparr>gateway_calls = [completionRequest ms], logged = [e], response = handlerCatch ev e\<rparr>
      | Inr reply \<Rightarrow>
          \<lparr>gateway_calls = [completionRequest ms], logged = [],
           response = (if orElse reply [] = [] then respondError 500 (js ''No response from API'')
                       else \<lparr>status = 200, res_json = \<lparr>message = reply, error = None, details = None\<rparr>\<rparr>)\<rparr>)"
  by (simp add: handler_def handlerTry_def orElse_def truthy_def split: sum.splits option.splits)

lemma handler_calls:
  "req_method req = js ''POST'' \<Longrightarrow> req_body req = BodyWith (IsArray ms) \<Longrightarrow>
   gateway_calls (handler ev upstream req) = [completionRequest ms]"
  by (cases "upstream (completionRequest ms)")
     (simp_all add: handler_throws handler_resolves split: sum.splits)

lemma handlerCatch_status:
  "status (handlerCatch ev e) =
     (if err_status e = Some 401 then 401 else if err_status e = Some 429 then 429
      else if err_status e = Some 402 then 402 else 500)"
  by (simp add: handlerCatch_def respondError_def)

lemma handlerCatch_error:
  "error (res_json (handlerCatch ev e)) =
     Some (if err_status e = Some 401 then js ''Invalid API key''
           else if err_status e = Some 429 then js ''Rate limit exceeded''
           else if err_status e = Some 402 then js ''Insufficient credits''
           else js ''Internal server error'')"
  by (simp add: handlerCatch_def respondError_def)

lemma handlerCatch_message: "message (res_json (handlerCatch ev e)) = None"
  by (simp add: handlerCatch_def respondError_def)

lemma servedBy_eq:
  "servedBy ev upstream (chatRequest st) =
     (let res = response (handler ev upstream
                   \<lparr>req_method = js ''POST'', req_body = BodyWith (IsArray (messages st @ [userMessage st]))\<rparr>)
      in Responded (200 \<le> status res \<and> status res \<le> 299)
           (Json \<lparr>message = message (res_json res), error = error (res_json res)\<rparr>))"
  by (simp add: servedBy_def chatRequest_def)

lemma servedBy_throws:
  assumes "upstream (completionRequest (messages st @ [userMessage st])) = Throws e"
  shows "servedBy ev upstream (chatRequest st) =
           Responded False (Json \<lparr>message = None, error = error (res_json (handlerCatch ev e))\<rparr>)"
  using assms
  by (simp add: servedBy_eq handler_throws handlerCatch_status handlerCatch_message)



lemma replyTurn_error:
  "replyTurn (Responded False (Json \<lparr>message = m, error = Some (js t)\<rparr>)) =
     \<lparr>role = Assistant, content = Some (js (''Error: '' @ (if t = [] then ''Something went wrong'' else t)))\<rparr>"
  by (simp add: replyTurn_def orElse_def truthy_def js_append) (simp add: js_def)







lemma last_after:
  "\<not> rejected st \<Longrightarrow> last (messages (after st fetch)) = replyTurn (fetch (chatRequest st))"
  by (simp add: after_accepted)

lemma loading_after: "\<not> rejected st \<Longrightarrow> \<not> isLoading (after st fetch)"
  by (simp add: after_accepted)

text \<open>
  C5.  When the call to the completion API raises an error, the handler answers by the
  error's status: 401 with "Invalid API key", 429 with "Rate limit exceeded", 402 with
  "Insufficient credits", and in every other case (another status, or none) 500 with
  "Internal server error".  A submission whose call fails with status 401 ends with the
  log's last turn being the assistant turn "Error: Invalid API key", and \<open>isLoading\<close> false.
\<close>

theorem upstream_error_classification:
  assumes "upstream (completionRequest ms) = Throws e"
  shows "(status (response (handler ev upstream \<lparr>req_method = js ''POST'', req_body = BodyWith (IsArray ms)\<rparr>)),
          error (res_json (response (handler ev upstream \<lparr>req_method = js ''POST'', req_body = BodyWith (IsArray ms)\<rparr>))))
         = (if err_status e = Some 401 then (401, Some (js ''Invalid API key''))
            else if err_status e = Some 429 then (429, Some (js ''Rate limit exceeded''))
            else if err_status e = Some 402 then (402, Some (js ''Insufficient credits''))
            else (500, Some (js ''Internal server error'')))
         \<and> (trim (input st) \<noteq> [] \<and> \<not> isLoading st \<and> ms = messages st @ [userMessage st]
              \<and> err_status e = Some 401 \<longrightarrow>
              last (messages (after st (servedBy ev upstream)))
                = \<lparr>role = Assistant, content = Some (js ''Error: Invalid API key'')\<rparr>
              \<and> \<not> isLoading (after st (servedBy ev upstream)))"
proof -
  have h: "handler ev upstream \<lparr>req_method = js ''POST'', req_body = BodyWith (IsArray ms)\<rparr> =
             \<lparr>gateway_calls = [completionRequest ms], logged = [e], response = handlerCatch ev e\<rparr>"
    using assms by (simp add: handler_throws)
  have first: "(status (handlerCatch ev e), error (res_json (handlerCatch ev e)))
         = (if err_status e = Some 401 then (401, Some (js ''Invalid API key''))
            else if err_status e = Some 429 then (429, Some (js ''Rate limit exceeded''))
            else if err_status e = Some 402 then (402, Some (js ''Insufficient credits''))
            else (500, Some (js ''Internal server error'')))"
    by (simp add: handlerCatch_status handlerCatch_error)
  have second: "last (messages (after st (servedBy ev upstream)))
                = \<lparr>role = Assistant, content = Some (js ''Error: Invalid API key'')\<rparr>
              \<and> \<not> isLoading (after st (servedBy ev upstream))"
    if a: "trim (input st) \<noteq> []" "\<not> isLoading st" and m: "ms = messages st @ [userMessage st]"
      and c: "err_status e = Some 401"
  proof -
    from a have acc: "\<not> rejected st" by (simp add: accepted_iff)
    have "servedBy ev upstream (chatRequest st) =
            Responded False (Json \<lparr>message = None, error = Some (js ''Invalid API key'')\<rparr>)"
      using assms m c by (simp add: servedBy_throws handlerCatch_error)
    then show ?thesis
      by (simp add: last_after [OF acc] loading_after [OF acc] replyTurn_error)
  qed
  show ?thesis
    unfolding h using first second by simp
qed

theorem upstream_error_classification_witness:
  "last (messages (after hello (servedBy ev0 (fails 401))))
     = \<lparr>role = Assistant, content = Some (js ''Error: Invalid API key'')\<rparr>
   \<and> status (response (handler ev0 (fails 429)
         \<lparr>req_method = js ''POST'', req_body = BodyWith (IsArray (messages hello @ [userMessage hello]))\<rparr>)) = 429
   \<and> \<not> isLoading (after hello (servedBy ev0 (fails 401)))"
proof -
  have t: "fails c (completionRequest (messages hello @ [userMessage hello])) =
             Throws \<lparr>err_status = Some c, err_message = js ''upstream error''\<rparr>" for c
    by (simp add: fails_def)
  show ?thesis
    using upstream_error_classification
            [where upstream = "fails 401" and ev = ev0 and st = hello
               and ms = "messages hello @ [userMessage hello]", OF t]
          upstream_error_classification
            [where upstream = "fails 429" and ev = ev0 and st = hello
               and ms = "messages hello @ [userMessage hello]", OF t]
          hello_accepted
    by simp
qed

text \<open>
  The handler answers a request whose method is not POST with status 405 and an error
  body, and a POST whose body is a value without \<open>messages\<close>, or with one that is not
  an array, with status 400 and an error body; in both cases it makes no call to the
  completion API.
\<close>

lemma handler_rejects_bad_requests:
  "(req_method req \<noteq> js ''POST'' \<longrightarrow>
      gateway_calls (handler ev upstream req) = []
      \<and> status (response (handler ev upstream req)) = 405
      \<and> error (res_json (response (handler ev upstream req))) = Some (js ''Method not allowed''))
   \<and> (req_method req = js ''POST'' \<and> (req_body req = BodyWith Missing \<or> req_body req = BodyWith (NotArray t)) \<longrightarrow>
      gateway_calls (handler ev upstream req) = []
      \<and> status (response (handler ev upstream req)) = 400
      \<and> error (res_json (response (handler ev upstream req))) = Some (js ''Messages array is required''))"
proof -
  have a: "req_method req \<noteq> js ''POST'' \<Longrightarrow>
      gateway_calls (handler ev upstream req) = []
      \<and> status (response (handler ev upstream req)) = 405
      \<and> error (res_json (response (handler ev upstream req))) = Some (js ''Method not allowed'')"
    by (simp add: handler_not_post respondError_def)
  have b: "req_method req = js ''POST'' \<Longrightarrow> req_body req = BodyWith f \<Longrightarrow> f = Missing \<or> f = NotArray t \<Longrightarrow>
      gateway_calls (handler ev upstream req) = []
      \<and> status (response (handler ev upstream req)) = 400
      \<and> error (res_json (response (handler ev upstream req))) = Some (js ''Messages array is required'')" for f
    using handler_no_array [of req f t ev upstream] by (simp add: respondError_def)
  show ?thesis using a b by blast
qed

lemma handler_rejects_bad_requests_example:
  "status (response (handler ev0 (replies (js ''Hi'')) \<lparr>req_method = js ''GET'', req_body = BodyWith (IsArray [greeting])\<rparr>)) = 405
   \<and> gateway_calls (handler ev0 (replies (js ''Hi'')) \<lparr>req_method = js ''GET'', req_body = BodyWith (IsArray [greeting])\<rparr>) = []
   \<and> status (response (handler ev0 (replies (js ''Hi'')) \<lparr>req_method = js ''POST'', req_body = (BodyWith (NotArray True) :: turn request_body)\<rparr>)) = 400
   \<and> gateway_calls (handler ev0 (replies (js ''Hi'')) \<lparr>req_method = js ''POST'', req_body = (BodyWith (NotArray True) :: turn request_body)\<rparr>) = []"
  using handler_rejects_bad_requests [of "\<lparr>req_method = js ''GET'', req_body = BodyWith (IsArray [greeting])\<rparr>" ev0 "replies (js ''Hi'')" True]
        handler_rejects_bad_requests [of "\<lparr>req_method = js ''POST'', req_body = (BodyWith (NotArray True) :: turn request_body)\<rparr>" ev0 "replies (js ''Hi'')" True]
  by simp

text \<open>
  C6.  A POST whose body is \<open>null\<close> has no \<open>messages\<close> either, but it is not answered
  with status 400: the destructuring of line 56 raises before the test of line 58 is
  reached, and the \<open>catch\<close> clause, finding no status on the TypeError, answers with
  status 500 and "Internal server error".  No call to the completion API is made.
\<close>

theorem handler_null_body_answers_500:
  "status (response (handler ev upstream \<lparr>req_method = js ''POST'', req_body = Nullish\<rparr>)) = 500
   \<and> status (response (handler ev upstream \<lparr>req_method = js ''POST'', req_body = Nullish\<rparr>)) \<noteq> 400
   \<and> error (res_json (response (handler ev upstream \<lparr>req_method = js ''POST'', req_body = Nullish\<rparr>)))
       = Some (js ''Internal server error'')
   \<and> gateway_calls (handler ev upstream \<lparr>req_method = js ''POST'', req_body = Nullish\<rparr>) = []"
  by (simp add: handler_nullish typeError_def handlerCatch_status handlerCatch_error)



lemma handler_malformed_completion:
  assumes "upstream (completionRequest ms) = Resolves c" and "choices c = None"
  shows "status (response (handler ev upstream \<lparr>req_method = js ''POST'', req_body = BodyWith (IsArray ms)\<rparr>)) = 500
         \<and> error (res_json (response (handler ev upstream \<lparr>req_method = js ''POST'', req_body = BodyWith (IsArray ms)\<rparr>)))
             = Some (js ''Internal server error'')"
  using assms
  by (simp add: handler_resolves replyOf_def typeError_def handlerCatch_status handlerCatch_error)

text \<open>The route never answers ok without a non-empty message.\<close>

lemma servedBy_ok_has_message:
  "servedBy ev upstream (chatRequest st) = Responded True b \<Longrightarrow>
   \<exists>text. text \<noteq> [] \<and> b = Json \<lparr>message = Some text, error = None\<rparr>"
proof (cases "upstream (completionRequest (messages st @ [userMessage st]))")
  case (Throws e)
  assume "servedBy ev upstream (chatRequest st) = Responded True b"
  with Throws show ?thesis by (simp add: servedBy_throws)
next
  case (Resolves c)
  assume ok: "servedBy ev upstream (chatRequest st) = Responded True b"
  show ?thesis
  proof (cases "replyOf ev c")
    case (Inl e)
    with Resolves ok show ?thesis
      by (simp add: servedBy_eq handler_resolves handlerCatch_status Let_def split: if_splits)
  next
    case (Inr reply)
    with Resolves ok show ?thesis
      by (cases reply)
         (auto simp: servedBy_eq handler_resolves orElse_def truthy_def respondError_def Let_def
               split: if_splits)
  qed
qed

section \<open>Properties of the page\<close>

lemma darkMode_apply_effect [simp]: "darkMode (apply_effect st e) = darkMode st"
  by (cases e) simp_all

lemma darkMode_run [simp]: "darkMode (run st es) = darkMode st"
  by (induction es arbitrary: st) simp_all

lemma ui_rerender [simp]: "ui (rerender st' p) = st'"
  by (simp add: rerender_def)

lemma themeEffect_absorb: "themeEffect d (themeEffect d' s) = themeEffect d s"
  by (simp add: themeEffect_def)

lemma themeEffect_blank: "themeEffect d s = themeEffect d blank"
  by (simp add: themeEffect_def blank_def)

text \<open>In step with the theme: the body carries the colours of the current preference.\<close>

lemma rerender_in_step:
  "bodyStyle p = themeEffect (darkMode (ui p)) blank \<Longrightarrow>
   bodyStyle (rerender st' p) = themeEffect (darkMode st') blank"
  by (simp add: rerender_def themeEffect_absorb [of _ _ blank])

lemma step_in_step:
  assumes "bodyStyle p = themeEffect (darkMode (ui p)) blank"
  shows "bodyStyle (step p e) = themeEffect (darkMode (ui (step p e))) blank"
  using assms by (cases e) (simp_all add: rerender_in_step)

lemma reachable_in_step: "reachable p \<Longrightarrow> bodyStyle p = themeEffect (darkMode (ui p)) blank"
proof (induction rule: reachable.induct)
  case (mounted s0)
  show ?case by (simp add: mount_def themeEffect_blank [of _ s0])
next
  case (stepped p e)
  from stepped.IH show ?case by (rule step_in_step)
qed

lemma themes_differ: "themeEffect True s \<noteq> themeEffect False s'"
proof
  assume "themeEffect True s = themeEffect False s'"
  then have "backgroundColor (themeEffect True s) = backgroundColor (themeEffect False s')"
    by simp
  then show False by (simp add: themeEffect_def)
qed

text \<open>
  C9.  In every state the page can reach, toggling the dark mode checkbox twice brings
  the background and foreground colours of the body, and the whole page state, back to
  what they were; while the settings panel is shown, one toggle does change the colours.
\<close>

theorem theme_double_toggle:
  assumes "reachable p"
  shows "bodyStyle (toggleTheme (toggleTheme p)) = bodyStyle p
         \<and> toggleTheme (toggleTheme p) = p
         \<and> (showSettings (ui p) \<longrightarrow> bodyStyle (toggleTheme p) \<noteq> bodyStyle p)"
proof (cases "showSettings (ui p)")
  case False
  then show ?thesis by (simp add: toggleTheme_def)
next
  case True
  have inv: "bodyStyle p = themeEffect (darkMode (ui p)) blank"
    using assms by (rule reachable_in_step)
  have one: "toggleTheme p =
               \<lparr>ui = (ui p)\<lparr>darkMode := \<not> darkMode (ui p)\<rparr>,
                bodyStyle = themeEffect (\<not> darkMode (ui p)) blank\<rparr>"
    using True inv by (simp add: toggleTheme_def rerender_def themeEffect_absorb [of _ _ blank])
  have two: "toggleTheme (toggleTheme p) = \<lparr>ui = ui p, bodyStyle = themeEffect (darkMode (ui p)) blank\<rparr>"
    using True
    by (simp add: one toggleTheme_def [of "\<lparr>ui = (ui p)\<lparr>darkMode := \<not> darkMode (ui p)\<rparr>,
                bodyStyle = themeEffect (\<not> darkMode (ui p)) blank\<rparr>"] rerender_def themeEffect_absorb)
  have restored: "toggleTheme (toggleTheme p) = p"
    using inv by (simp add: two)
  have diff: "bodyStyle (toggleTheme p) \<noteq> bodyStyle p"
    using themes_differ [of blank blank] themes_differ [of blank blank, symmetric]
    unfolding one inv by (cases "darkMode (ui p)") auto
  show ?thesis using restored diff by simp
qed

theorem theme_double_toggle_witness:
  "reachable (step (mount blank) SettingsClick)
   \<and> bodyStyle (step (mount blank) SettingsClick) = \<lparr>backgroundColor = js ''#f5f5f5'', color = js ''#000000''\<rparr>
   \<and> bodyStyle (toggleTheme (step (mount blank) SettingsClick)) = \<lparr>backgroundColor = js ''#1a1a1a'', color = js ''#ffffff''\<rparr>
   \<and> bodyStyle (toggleTheme (toggleTheme (step (mount blank) SettingsClick)))
       = \<lparr>backgroundColor = js ''#f5f5f5'', color = js ''#000000''\<rparr>"
proof -
  have r: "reachable (step (mount blank) SettingsClick)"
    by (rule reachable.stepped) (rule reachable.mounted)
  have a: "bodyStyle (step (mount blank) SettingsClick) = \<lparr>backgroundColor = js ''#f5f5f5'', color = js ''#000000''\<rparr>"
    by (simp add: mount_def initial_def rerender_def themeEffect_def blank_def)
  have b: "bodyStyle (toggleTheme (step (mount blank) SettingsClick)) = \<lparr>backgroundColor = js ''#1a1a1a'', color = js ''#ffffff''\<rparr>"
    by (simp add: toggleTheme_def mount_def initial_def rerender_def themeEffect_def blank_def)
  show ?thesis using theme_double_toggle [OF r] r a b by simp
qed

subsection \<open>The log over events\<close>

lemma steps_Nil [simp]: "steps p [] = p"
  by (simp add: steps_def)

lemma steps_Cons [simp]: "steps p (e # es) = steps (step p e) es"
  by (simp add: steps_def)

lemma steps_append: "steps p (es @ fs) = steps (steps p es) fs"
  by (simp add: steps_def)

lemma exchanges_Cons: "exchanges (x # xs) = exchange x @ exchanges xs"
  by (simp add: exchanges_def)

text \<open>One exchange from a state in which none is pending.\<close>

lemma ui_exchange:
  assumes "\<not> isLoading (ui p)" and "trim t \<noteq> []"
  shows "ui (steps p (exchange (t, r))) =
           (ui p)\<lparr>messages := messages (ui p) @ [\<lparr>role = User, content = Some t\<rparr>, replyTurn r],
                  input := [], isLoading := False\<rparr>"
proof -
  have acc: "\<not> rejected ((ui p)\<lparr>input := t\<rparr>)"
    using assms by (simp add: accepted_iff)
  show ?thesis
    using assms(1) acc
    by (simp add: exchange_def sendMessage_sync_def sendMessage_resume_eq userMessage_def)
qed

lemma exchanges_log:
  assumes "\<not> isLoading (ui p)" and "\<forall>x \<in> set xs. trim (fst x) \<noteq> []"
  shows "messages (ui (steps p (exchanges xs)))
           = messages (ui p) @ concat (map (\<lambda>x. [\<lparr>role = User, content = Some (fst x)\<rparr>, replyTurn (snd x)]) xs)
         \<and> \<not> isLoading (ui (steps p (exchanges xs)))"
  using assms
proof (induction xs arbitrary: p)
  case Nil
  then show ?case by (simp add: exchanges_def)
next
  case (Cons x xs)
  obtain t r where x: "x = (t, r)" by (cases x)
  from Cons.prems x have t: "trim t \<noteq> []" by simp
  let ?q = "steps p (exchange (t, r))"
  have q: "ui ?q = (ui p)\<lparr>messages := messages (ui p) @ [\<lparr>role = User, content = Some t\<rparr>, replyTurn r],
                  input := [], isLoading := False\<rparr>"
    using Cons.prems(1) t by (rule ui_exchange)
  then have nl: "\<not> isLoading (ui ?q)" by simp
  have rest: "\<forall>x \<in> set xs. trim (fst x) \<noteq> []" using Cons.prems(2) by simp
  from Cons.IH [OF nl rest] q show ?case
    by (simp add: exchanges_Cons steps_append x)
qed

text \<open>
  C2.  The log starts as the single assistant greeting.  After k exchanges made one after
  the other from the fresh page, each with an input that does not trim to the empty
  string and each answered successfully, the log has 1 + 2 * k turns and none is pending.
\<close>

theorem log_length_after_exchanges:
  assumes "\<forall>x \<in> set xs. trim (fst x) \<noteq> [] \<and> \<not> gatewayFailure (snd x)"
  shows "messages (ui (mount s0)) = [greeting] \<and> role greeting = Assistant
         \<and> length (messages (ui (steps (mount s0) (exchanges xs)))) = 1 + 2 * length xs
         \<and> \<not> isLoading (ui (steps (mount s0) (exchanges xs)))"
proof -
  have nl: "\<not> isLoading (ui (mount s0))" by (simp add: mount_def initial_def)
  have ne: "\<forall>x \<in> set xs. trim (fst x) \<noteq> []" using assms by simp
  have len: "length (concat (map (\<lambda>x. [\<lparr>role = User, content = Some (fst x)\<rparr>, replyTurn (snd x)]) xs))
               = 2 * length xs"
    by (induction xs) simp_all
  from exchanges_log [OF nl ne] len show ?thesis
    by (simp add: mount_def initial_def greeting_def)
qed

theorem log_length_after_exchanges_witness:
  "length (messages (ui (steps (mount blank)
      (exchanges [(js ''Hello'', Responded True (Json \<lparr>message = Some (js ''Hi there!''), error = None\<rparr>)),
                  (js ''Bye'', Responded True (Json \<lparr>message = Some (js ''See you''), error = None\<rparr>))])))) = 5"
proof -
  have h: "\<forall>x \<in> set [(js ''Hello'', Responded True (Json \<lparr>message = Some (js ''Hi there!''), error = None\<rparr>)),
                  (js ''Bye'', Responded True (Json \<lparr>message = Some (js ''See you''), error = None\<rparr>))].
             trim (fst x) \<noteq> [] \<and> \<not> gatewayFailure (snd x)"
    by (simp add: trim_def js_def isWhiteSpace_def)
  show ?thesis using log_length_after_exchanges [OF h, of blank] by simp
qed

lemma log_grows_step: "prefix (messages (ui p)) (messages (ui (step p e)))"
  by (cases e) (simp_all add: sendMessage_sync_def sendMessage_resume_eq)

lemma log_grows: "prefix (messages (ui p)) (messages (ui (steps p es)))"
proof (induction es arbitrary: p)
  case Nil
  show ?case by simp
next
  case (Cons e es)
  have "prefix (messages (ui p)) (messages (ui (step p e)))" by (rule log_grows_step)
  also have "prefix (messages (ui (step p e))) (messages (ui (steps (step p e) es)))" by (rule Cons.IH)
  finally show ?case by simp
qed

lemma settle_appends:
  "isLoading (ui p) \<Longrightarrow>
   ui (step p (FetchSettled r)) = (ui p)\<lparr>messages := messages (ui p) @ [replyTurn r], isLoading := False\<rparr>"
  by (simp add: sendMessage_resume_eq)

lemma submit_then_settle:
  "\<not> isLoading (ui p) \<Longrightarrow> ui (steps p [SubmitForm, FetchSettled r]) = after (ui p) (\<lambda>rq. r)"
  by (cases "rejected (ui p)")
     (simp_all add: after_def sendMessage_rejected sendMessage_accepted sendMessage_sync_def
        sendMessage_resume_eq)

lemma role_replyTurn [simp]: "role (replyTurn r) = Assistant"
  by (simp add: replyTurn_def)

text \<open>
  C10.  The turn appended when a pending exchange fails has role assistant and an
  "Error: " content; a successful reply with that same text would leave the very same
  page; the turn stays in the log whatever happens afterwards, and every later accepted
  submission sends it to the route among the messages of its request, which the handler
  of the route passes on, whole and in one call, to the completion API.
\<close>

theorem error_turn_is_resent:
  assumes "isLoading (ui p)" and "gatewayFailure r"
  shows "last (messages (ui (step p (FetchSettled r)))) = replyTurn r
         \<and> role (replyTurn r) = Assistant \<and> isErrorTurn (replyTurn r)
         \<and> step p (FetchSettled (Responded True (Json \<lparr>message = content (replyTurn r), error = None\<rparr>)))
             = step p (FetchSettled r)
         \<and> (\<forall>es. \<not> rejected (ui (steps (step p (FetchSettled r)) es)) \<longrightarrow>
               sendMessage_sync (ui (steps (step p (FetchSettled r)) es)) ! 4
                 = Fetch (chatRequest (ui (steps (step p (FetchSettled r)) es)))
               \<and> replyTurn r \<in> set (body_messages (chatRequest (ui (steps (step p (FetchSettled r)) es))))
               \<and> map req_messages (gateway_calls (handler ev upstream
                     \<lparr>req_method = http_method (chatRequest (ui (steps (step p (FetchSettled r)) es))),
                      req_body = BodyWith (IsArray
                        (body_messages (chatRequest (ui (steps (step p (FetchSettled r)) es)))))\<rparr>))
                   = [body_messages (chatRequest (ui (steps (step p (FetchSettled r)) es)))]
               \<and> (\<forall>call \<in> set (gateway_calls (handler ev upstream
                     \<lparr>req_method = http_method (chatRequest (ui (steps (step p (FetchSettled r)) es))),
                      req_body = BodyWith (IsArray
                        (body_messages (chatRequest (ui (steps (step p (FetchSettled r)) es)))))\<rparr>)).
                     replyTurn r \<in> set (req_messages call)))"
proof -
  have forwarded: "gateway_calls (handler ev upstream
                     \<lparr>req_method = http_method (chatRequest st),
                      req_body = BodyWith (IsArray (body_messages (chatRequest st)))\<rparr>)
                   = [completionRequest (body_messages (chatRequest st))]" for st
    by (rule handler_calls) (simp_all add: chatRequest_def)
  have settled: "ui (step p (FetchSettled r))
                   = (ui p)\<lparr>messages := messages (ui p) @ [replyTurn r], isLoading := False\<rparr>"
    using assms(1) by (rule settle_appends)
  have a: "last (messages (ui (step p (FetchSettled r)))) = replyTurn r"
    by (simp only: settled) simp
  have b: "isErrorTurn (replyTurn r)"
    using assms(2) by (rule replyTurn_failure)
  have same: "replyTurn (Responded True (Json \<lparr>message = content (replyTurn r), error = None\<rparr>)) = replyTurn r"
    by (simp add: replyTurn_def)
  have c: "step p (FetchSettled (Responded True (Json \<lparr>message = content (replyTurn r), error = None\<rparr>)))
             = step p (FetchSettled r)"
    by (simp add: sendMessage_resume_eq same)
  have d: "sendMessage_sync (ui (steps (step p (FetchSettled r)) es)) ! 4
                 = Fetch (chatRequest (ui (steps (step p (FetchSettled r)) es)))
               \<and> replyTurn r \<in> set (body_messages (chatRequest (ui (steps (step p (FetchSettled r)) es))))
               \<and> map req_messages (gateway_calls (handler ev upstream
                     \<lparr>req_method = http_method (chatRequest (ui (steps (step p (FetchSettled r)) es))),
                      req_body = BodyWith (IsArray
                        (body_messages (chatRequest (ui (steps (step p (FetchSettled r)) es)))))\<rparr>))
                   = [body_messages (chatRequest (ui (steps (step p (FetchSettled r)) es)))]
               \<and> (\<forall>call \<in> set (gateway_calls (handler ev upstream
                     \<lparr>req_method = http_method (chatRequest (ui (steps (step p (FetchSettled r)) es))),
                      req_body = BodyWith (IsArray
                        (body_messages (chatRequest (ui (steps (step p (FetchSettled r)) es)))))\<rparr>)).
                     replyTurn r \<in> set (req_messages call))"
    if acc: "\<not> rejected (ui (steps (step p (FetchSettled r)) es))" for es
  proof -
    have "replyTurn r \<in> set (messages (ui (step p (FetchSettled r))))"
      by (simp only: settled) simp
    moreover have "prefix (messages (ui (step p (FetchSettled r))))
                     (messages (ui (steps (step p (FetchSettled r)) es)))"
      by (rule log_grows)
    ultimately have "replyTurn r \<in> set (messages (ui (steps (step p (FetchSettled r)) es)))"
      using set_mono_prefix by blast
    then have sent: "sendMessage_sync (ui (steps (step p (FetchSettled r)) es)) ! 4
                 = Fetch (chatRequest (ui (steps (step p (FetchSettled r)) es)))
               \<and> replyTurn r \<in> set (body_messages (chatRequest (ui (steps (step p (FetchSettled r)) es))))"
      using acc by (simp add: sendMessage_sync_def chatRequest_def)
    show ?thesis
      using sent by (simp add: forwarded completionRequest_def)
  qed
  have e: "role (replyTurn r) = Assistant" by simp
  show ?thesis
    by (intro conjI allI impI; (rule a b c e | (drule d, elim conjE, assumption)))
qed

theorem error_turn_is_resent_witness:
  "isLoading (ui (steps (mount blank) [InputChange (js ''Hello''), SubmitForm]))
   \<and> gatewayFailure (Rejected (js ''Failed to fetch''))
   \<and> body_messages (chatRequest (ui (steps (mount blank)
         [InputChange (js ''Hello''), SubmitForm, FetchSettled (Rejected (js ''Failed to fetch'')),
          InputChange (js ''Again'')])))
       = [greeting, \<lparr>role = User, content = Some (js ''Hello'')\<rparr>,
          \<lparr>role = Assistant, content = Some (js ''Error: Failed to fetch'')\<rparr>,
          \<lparr>role = User, content = Some (js ''Again'')\<rparr>]
   \<and> replyTurn (Rejected (js ''Failed to fetch''))
       \<in> set (body_messages (chatRequest (ui (steps (mount blank)
         [InputChange (js ''Hello''), SubmitForm, FetchSettled (Rejected (js ''Failed to fetch'')),
          InputChange (js ''Again'')]))))
   \<and> map req_messages (gateway_calls (handler ev0 (replies (js ''Hi''))
         \<lparr>req_method = js ''POST'',
          req_body = BodyWith (IsArray
            [greeting, \<lparr>role = User, content = Some (js ''Hello'')\<rparr>,
             \<lparr>role = Assistant, content = Some (js ''Error: Failed to fetch'')\<rparr>,
             \<lparr>role = User, content = Some (js ''Again'')\<rparr>])\<rparr>))
       = [[greeting, \<lparr>role = User, content = Some (js ''Hello'')\<rparr>,
           \<lparr>role = Assistant, content = Some (js ''Error: Failed to fetch'')\<rparr>,
           \<lparr>role = User, content = Some (js ''Again'')\<rparr>]]"
proof -
  have hello_ok: "\<not> rejected (initial\<lparr>input := js ''Hello''\<rparr>)"
    using hello_accepted by (simp add: accepted_iff hello_def)
  have p: "ui (steps (mount blank) [InputChange (js ''Hello''), SubmitForm]) =
             initial\<lparr>messages := [greeting, \<lparr>role = User, content = Some (js ''Hello'')\<rparr>],
                     input := [], isLoading := True\<rparr>"
    using hello_ok
    by (simp add: mount_def sendMessage_sync_def userMessage_def) (simp add: initial_def)
  have h1: "isLoading (ui (steps (mount blank) [InputChange (js ''Hello''), SubmitForm]))"
    by (simp only: p) simp
  have h2: "gatewayFailure (Rejected (js ''Failed to fetch''))" by simp
  have again: "trim (js ''Again'') \<noteq> []"
    by (simp add: trim_def js_def isWhiteSpace_def)
  have q: "ui (steps (mount blank)
         [InputChange (js ''Hello''), SubmitForm, FetchSettled (Rejected (js ''Failed to fetch'')),
          InputChange (js ''Again'')]) =
             initial\<lparr>messages := [greeting, \<lparr>role = User, content = Some (js ''Hello'')\<rparr>,
                                   \<lparr>role = Assistant, content = Some (js ''Error: Failed to fetch'')\<rparr>],
                     input := js ''Again'', isLoading := False\<rparr>"
    using hello_ok
    by (simp add: mount_def sendMessage_sync_def userMessage_def sendMessage_resume_eq replyTurn_def
          js_append [symmetric])
       (simp add: initial_def)
  have eq: "steps (step (steps (mount blank) [InputChange (js ''Hello''), SubmitForm])
                (FetchSettled (Rejected (js ''Failed to fetch'')))) [InputChange (js ''Again'')]
            = steps (mount blank)
                [InputChange (js ''Hello''), SubmitForm, FetchSettled (Rejected (js ''Failed to fetch'')),
                 InputChange (js ''Again'')]"
    by (simp only: steps_Cons steps_Nil)
  have "\<not> rejected (ui (steps (mount blank)
                [InputChange (js ''Hello''), SubmitForm, FetchSettled (Rejected (js ''Failed to fetch'')),
                 InputChange (js ''Again'')]))"
    by (simp only: q) (simp add: accepted_iff again initial_def)
  then have acc: "\<not> rejected (ui (steps (step (steps (mount blank) [InputChange (js ''Hello''), SubmitForm])
                (FetchSettled (Rejected (js ''Failed to fetch'')))) [InputChange (js ''Again'')]))"
    unfolding eq .
  have msgs: "body_messages (chatRequest (ui (steps (mount blank)
         [InputChange (js ''Hello''), SubmitForm, FetchSettled (Rejected (js ''Failed to fetch'')),
          InputChange (js ''Again'')])))
       = [greeting, \<lparr>role = User, content = Some (js ''Hello'')\<rparr>,
          \<lparr>role = Assistant, content = Some (js ''Error: Failed to fetch'')\<rparr>,
          \<lparr>role = User, content = Some (js ''Again'')\<rparr>]"
    by (simp only: q) (simp add: chatRequest_def userMessage_def initial_def)
  note inst = error_turn_is_resent [OF h1 h2, where ev = ev0 and upstream = "replies (js ''Hi'')"]
  from inst acc
  have "replyTurn (Rejected (js ''Failed to fetch''))
       \<in> set (body_messages (chatRequest (ui (steps (step (steps (mount blank) [InputChange (js ''Hello''), SubmitForm])
                (FetchSettled (Rejected (js ''Failed to fetch'')))) [InputChange (js ''Again'')]))))"
    by blast
  then have mem: "replyTurn (Rejected (js ''Failed to fetch''))
       \<in> set (body_messages (chatRequest (ui (steps (mount blank)
         [InputChange (js ''Hello''), SubmitForm, FetchSettled (Rejected (js ''Failed to fetch'')),
          InputChange (js ''Again'')]))))"
    unfolding eq .
  from inst acc
  have "map req_messages (gateway_calls (handler ev0 (replies (js ''Hi''))
          \<lparr>req_method = http_method (chatRequest (ui (steps (step (steps (mount blank) [InputChange (js ''Hello''), SubmitForm])
                (FetchSettled (Rejected (js ''Failed to fetch'')))) [InputChange (js ''Again'')]))),
           req_body = BodyWith (IsArray (body_messages (chatRequest (ui (steps (step (steps (mount blank) [InputChange (js ''Hello''), SubmitForm])
                (FetchSettled (Rejected (js ''Failed to fetch'')))) [InputChange (js ''Again'')])))))\<rparr>))
        = [body_messages (chatRequest (ui (steps (step (steps (mount blank) [InputChange (js ''Hello''), SubmitForm])
                (FetchSettled (Rejected (js ''Failed to fetch'')))) [InputChange (js ''Again'')])))]"
    by blast
  then have calls: "map req_messages (gateway_calls (handler ev0 (replies (js ''Hi''))
         \<lparr>req_method = js ''POST'',
          req_body = BodyWith (IsArray
            [greeting, \<lparr>role = User, content = Some (js ''Hello'')\<rparr>,
             \<lparr>role = Assistant, content = Some (js ''Error: Failed to fetch'')\<rparr>,
             \<lparr>role = User, content = Some (js ''Again'')\<rparr>])\<rparr>))
       = [[greeting, \<lparr>role = User, content = Some (js ''Hello'')\<rparr>,
           \<lparr>role = Assistant, content = Some (js ''Error: Failed to fetch'')\<rparr>,
           \<lparr>role = User, content = Some (js ''Again'')\<rparr>]]"
    unfolding eq msgs by (simp add: chatRequest_def)
  show ?thesis using h1 h2 msgs mem calls by blast
qed

section \<open>Properties of the persistence functions\<close>

lemma snd_catching: "snd (catching label v body) = Inr (case body of Inl e \<Rightarrow> v | Inr x \<Rightarrow> x)"
  by (simp add: catching_def split: sum.splits)

lemma dataOrThrow_fails: "queryFails r \<Longrightarrow> \<exists>e. dataOrThrow r = Inl e"
  by (cases r) (auto simp: dataOrThrow_def)

lemma not_raises_catching: "\<not> raises (catching label v body)"
  by (simp add: raises_def snd_catching)

lemma saveConversation_returns: "\<not> raises (saveConversation supabase row)"
  by (cases supabase) (simp_all add: saveConversation_def not_raises_catching, simp add: raises_def)

lemma saveMessage_returns: "\<not> raises (saveMessage supabase row)"
  by (cases supabase) (simp_all add: saveMessage_def not_raises_catching, simp add: raises_def)

lemma getConversationHistory_returns: "\<not> raises (getConversationHistory supabase k)"
  by (cases supabase) (simp_all add: getConversationHistory_def not_raises_catching, simp add: raises_def)

lemma getUserConversations_returns: "\<not> raises (getUserConversations supabase k)"
  by (cases supabase) (simp_all add: getUserConversations_def not_raises_catching, simp add: raises_def)

lemma createUser_returns: "\<not> raises (createUser supabase row)"
  by (cases supabase) (simp_all add: createUser_def not_raises_catching, simp add: raises_def)

lemma getUserById_returns: "\<not> raises (getUserById supabase k)"
  by (cases supabase) (simp_all add: getUserById_def not_raises_catching, simp add: raises_def)

lemma initializeDatabase_returns: "\<not> raises (initializeDatabase supabase)"
  by (cases supabase) (simp_all add: initializeDatabase_def raises_def Let_def split: sum.splits)

lemma saveConversation_null:
  "unavailable supabase (InsertSelectSingle CONVERSATIONS row) \<Longrightarrow>
   snd (saveConversation supabase row) = Inr Null"
  by (cases supabase)
     (auto simp: saveConversation_def unavailable_def snd_catching dest: dataOrThrow_fails)

lemma saveMessage_null:
  "unavailable supabase (InsertSelectSingle MESSAGES row) \<Longrightarrow>
   snd (saveMessage supabase row) = Inr Null"
  by (cases supabase)
     (auto simp: saveMessage_def unavailable_def snd_catching dest: dataOrThrow_fails)

lemma createUser_null:
  "unavailable supabase (InsertSelectSingle USERS row) \<Longrightarrow>
   snd (createUser supabase row) = Inr Null"
  by (cases supabase)
     (auto simp: createUser_def unavailable_def snd_catching dest: dataOrThrow_fails)

lemma getUserById_null:
  "unavailable supabase (SelectEqSingle USERS (js ''id'') k) \<Longrightarrow>
   snd (getUserById supabase k) = Inr Null"
  by (cases supabase)
     (auto simp: getUserById_def unavailable_def snd_catching dest: dataOrThrow_fails)

lemma getConversationHistory_empty:
  "unavailable supabase (SelectEqOrder MESSAGES (js ''conversation_id'') k (js ''created_at'') True) \<Longrightarrow>
   snd (getConversationHistory supabase k) = Inr (Rows [])"
  by (cases supabase)
     (auto simp: getConversationHistory_def unavailable_def snd_catching dest: dataOrThrow_fails)

lemma getUserConversations_empty:
  "unavailable supabase (SelectEqOrder CONVERSATIONS (js ''user_id'') k (js ''updated_at'') False) \<Longrightarrow>
   snd (getUserConversations supabase k) = Inr (Rows [])"
  by (cases supabase)
     (auto simp: getUserConversations_def unavailable_def snd_catching dest: dataOrThrow_fails)

lemma supabaseClient_absent:
  "supabaseUrl = None \<or> supabaseAnonKey = None \<Longrightarrow>
   supabaseClient supabaseUrl supabaseAnonKey createClient = None"
  by (auto simp: supabaseClient_def split: option.splits)

text \<open>
  C8.  None of the seven functions of the module lets an error escape.  Without a client
  (in particular when one of the two configuration values is absent), or when the call
  made on the client fails, the functions that return one record return \<open>null\<close> and
  those that return a list return the empty list.
\<close>

theorem persistence_never_raises:
  "\<not> raises (initializeDatabase supabase)
   \<and> \<not> raises (saveConversation supabase row) \<and> \<not> raises (saveMessage supabase row)
   \<and> \<not> raises (getConversationHistory supabase k) \<and> \<not> raises (getUserConversations supabase k)
   \<and> \<not> raises (createUser supabase row) \<and> \<not> raises (getUserById supabase k)
   \<and> (unavailable supabase (InsertSelectSingle CONVERSATIONS row) \<longrightarrow>
        snd (saveConversation supabase row) = Inr Null)
   \<and> (unavailable supabase (InsertSelectSingle MESSAGES row) \<longrightarrow>
        snd (saveMessage supabase row) = Inr Null)
   \<and> (unavailable supabase (InsertSelectSingle USERS row) \<longrightarrow>
        snd (createUser supabase row) = Inr Null)
   \<and> (unavailable supabase (SelectEqSingle USERS (js ''id'') k) \<longrightarrow>
        snd (getUserById supabase k) = Inr Null)
   \<and> (unavailable supabase (SelectEqOrder MESSAGES (js ''conversation_id'') k (js ''created_at'') True) \<longrightarrow>
        snd (getConversationHistory supabase k) = Inr (Rows []))
   \<and> (unavailable supabase (SelectEqOrder CONVERSATIONS (js ''user_id'') k (js ''updated_at'') False) \<longrightarrow>
        snd (getUserConversations supabase k) = Inr (Rows []))
   \<and> (supabaseUrl = None \<or> supabaseAnonKey = None \<longrightarrow>
        supabaseClient supabaseUrl supabaseAnonKey createClient = (None :: ('row, 'key) client option)
        \<and> unavailable (supabaseClient supabaseUrl supabaseAnonKey createClient) (q :: ('row, 'key) query))"
proof -
  have none: "unavailable None q" for q :: "('row, 'key) query"
    by (simp add: unavailable_def)
  show ?thesis
    by (simp add: initializeDatabase_returns saveConversation_returns saveMessage_returns
          getConversationHistory_returns getUserConversations_returns createUser_returns
          getUserById_returns saveConversation_null saveMessage_null createUser_null
          getUserById_null getConversationHistory_empty getUserConversations_empty
          supabaseClient_absent none)
qed


theorem persistence_never_raises_witness:
  "unavailable (Some offline) (InsertSelectSingle CONVERSATIONS 1)
   \<and> saveConversation (Some offline) 1 = ([ConsoleError (js ''Error saving conversation:'')], Inr Null)
   \<and> unavailable (Some noRows) (SelectEqOrder MESSAGES (js ''conversation_id'') 7 (js ''created_at'') True)
   \<and> getConversationHistory (Some noRows) 7 = ([ConsoleError (js ''Error fetching conversation history:'')], Inr (Rows []))
   \<and> snd (getUserById (supabaseClient None (Some (js ''key'')) (\<lambda>u k. offline)) 7) = Inr Null"
proof -
  have a: "unavailable (Some offline) (InsertSelectSingle CONVERSATIONS 1)"
    by (simp add: unavailable_def offline_def)
  have b: "unavailable (Some noRows) (SelectEqOrder MESSAGES (js ''conversation_id'') 7 (js ''created_at'') True)"
    by (simp add: unavailable_def noRows_def)
  have c: "None = None \<or> Some (js ''key'') = None" by simp
  have d: "fst (saveConversation (Some offline) 1) = [ConsoleError (js ''Error saving conversation:'')]"
    by (simp add: saveConversation_def catching_def dataOrThrow_def offline_def)
  have e: "fst (getConversationHistory (Some noRows) 7) = [ConsoleError (js ''Error fetching conversation history:'')]"
    by (simp add: getConversationHistory_def catching_def dataOrThrow_def noRows_def)
  have f: "snd (getUserById (supabaseClient None (Some (js ''key'')) (\<lambda>u k. offline)) 7) = Inr Null"
    using persistence_never_raises
      [of "supabaseClient None (Some (js ''key'')) (\<lambda>u k. offline)" 1 7 None "Some (js ''key'')"
          "\<lambda>u k. offline" "SelectEqSingle USERS (js ''id'') 7"] c
    by blast
  have g: "snd (saveConversation (Some offline) 1) = Inr Null"
    using persistence_never_raises
      [of "Some offline" 1 7 None None "\<lambda>u k. offline" "Rpc []"] a
    by blast
  have h: "snd (getConversationHistory (Some noRows) 7) = Inr (Rows [])"
    using persistence_never_raises
      [of "Some noRows" 1 7 None None "\<lambda>u k. offline" "Rpc []"] b
    by blast
  show ?thesis
    using a b d e f g h by (simp add: prod_eq_iff)
qed

end
